theory Spec2Isabelle
  imports Complex_Main "HOL-Library.Word"
begin

section \<open>Observables of adcc/properties.py\<close>

text \<open>
  The module turns density matrices and dipole integrals of an excited-state solver
  result into transition dipole moments, oscillator strengths and state dipole moments,
  and attaches them to a copy of the solver state.

  Conventions of the embedding:
  \<^item> Where only the shape, the order and the attachment of results matter, Python floats
    and the entries of numpy arrays are real numbers. The values that
    \<open>oscillator_strengths\<close> returns are studied on a second embedding of that function
    with numpy's number types: binary64 with rounding, infinities and NaN, and int64 with
    wrap-around.
  \<^item> A one-dimensional numpy array is a list, a two-dimensional one a list of rows. The
    arrays built here from nested comprehensions are rectangular.
  \<^item> Every \<open>raise\<close> is a value \<open>Inl e\<close> of the result type \<open>error + 'a\<close>.
  \<^item> Operators and densities (the \<open>OneParticleOperator\<close> objects of the package) are
    values of a type parameter \<open>'m\<close>; this module only hands them to its collaborators.
  \<^item> \<open>product_trace\<close> and \<open>HfDensityMatrix\<close> are taken to return a value on every
    input; the constructor \<open>AdcMethod\<close> and the density provider may raise.
\<close>

subsection \<open>Errors\<close>

text \<open>
  The exceptions that leave the module, with their messages. numpy reports a failed
  broadcast as a \<open>ValueError\<close> as well.
\<close>

datatype error =
    ValueError string
  | NotImplementedError string
  | OtherError string

subsection \<open>Data model\<close>

text \<open>
  An \<open>AdcMethod\<close> instance; the module reads its \<open>property_method\<close> only. The
  \<open>method\<close> argument and the \<open>method\<close> attribute of a state are either such an
  instance or a raw label (\<open>isinstance(method, AdcMethod)\<close>, line 84).
\<close>

record adc_method =
  property_method :: string

datatype method_arg = Label string | Method adc_method

text \<open>
  \<open>hasattr(x, name)\<close> is modelled by an optional field: \<open>None\<close> when the attribute is
  absent. The attributes the module reads without a presence check are plain fields.
\<close>

record 'm operator_integrals =
  electric_dipole :: "'m list option"

record 'm reference_state =
  operator_integrals :: "'m operator_integrals"
  nuclear_dipole :: "real list"

record 'm ground_state =
  mp2_diffdm :: "'m"

text \<open>
  The solver state. The attribute \<open>method\<close> is the field \<open>method_attr\<close>. The last
  three fields are the attributes the module attaches; they carry the suffix \<open>_attr\<close>
  because the module's functions have the same names.
\<close>

record 'm solver_state =
  eigenvalues :: "real list"
  method_attr :: method_arg
  reference_state :: "'m reference_state"
  ground_state :: "'m ground_state"
  state_diffdms :: "'m list option"
  ground_to_excited_tdms :: "'m list option"
  transition_dipole_moments_attr :: "real list list option"
  oscillator_strengths_attr :: "real list option"
  state_dipole_moments_attr :: "real list list option"

text \<open>The keyword arguments of the density provider.\<close>

record density_flags =
  state_diffdm :: bool
  ground_to_excited_tdm :: bool
  state_to_state_tdm :: bool

subsection \<open>Collaborators\<close>

text \<open>
  The module imports four names whose code lies outside \<open>properties.py\<close>:
  \<open>product_trace\<close> and \<open>HfDensityMatrix\<close> (OneParticleOperator), the constructor
  \<open>AdcMethod\<close>, and the density provider \<open>attach_state_densities\<close>. They are parameters
  of the embedding, collected in one record that every function receives.

  The density provider receives a reference to a solver state and may mutate it, so it
  acts on the object store (a list of solver states, a reference being an index) and
  returns the store it leaves behind together with either an error or the reference it
  returns.
\<close>

type_synonym 'm store = "'m solver_state list"

record 'm collaborators =
  product_trace :: "'m \<Rightarrow> 'm \<Rightarrow> real"
  HfDensityMatrix :: "'m reference_state \<Rightarrow> 'm"
  AdcMethod :: "string \<Rightarrow> error + adc_method"
  attach_state_densities ::
    "'m store \<Rightarrow> nat \<Rightarrow> density_flags \<Rightarrow> method_arg option \<Rightarrow> 'm store \<times> (error + nat)"

subsection \<open>numpy\<close>

text \<open>
  \<open>np.linalg.norm\<close> of a one-dimensional real array: the square root of the sum of the
  squares.
\<close>

definition linalg_norm :: "real list \<Rightarrow> real" where
  "linalg_norm v = sqrt (sum_list (map (\<lambda>x. x ^ 2) v))"

text \<open>
  An elementwise operation on two one-dimensional arrays under numpy's broadcasting rule:
  the lengths agree, or one of them is 1 and that array is repeated; otherwise numpy
  raises \<open>ValueError\<close>.
\<close>

definition np_broadcast ::
  "(real \<Rightarrow> real \<Rightarrow> real) \<Rightarrow> real list \<Rightarrow> real list \<Rightarrow> error + real list" where
  "np_broadcast f xs ys =
     (if length xs = length ys then Inr (map2 f xs ys)
      else if length xs = 1 then Inr (map (f (hd xs)) ys)
      else if length ys = 1 then Inr (map (\<lambda>x. f x (hd ys)) xs)
      else Inl (ValueError ''operands could not be broadcast together''))"

text \<open>The first error of a list of results, or all the values.\<close>

fun collect :: "(error + 'a) list \<Rightarrow> error + 'a list" where
  "collect [] = Inr []"
| "collect (Inl e # rs) = Inl e"
| "collect (Inr x # rs) = (case collect rs of Inl e \<Rightarrow> Inl e | Inr xs \<Rightarrow> Inr (x # xs))"

text \<open>
  A one-dimensional array \<open>v\<close> plus the array \<open>np.array(rows)\<close> of a list of equally
  long rows. With at least one row the array is two-dimensional and \<open>v\<close> is broadcast
  against every row. With no row, \<open>np.array([])\<close> is one-dimensional of length 0, which
  broadcasts only against a \<open>v\<close> of length 0 or 1.
\<close>

definition np_add_rows :: "real list \<Rightarrow> real list list \<Rightarrow> error + real list list" where
  "np_add_rows v rows =
     (if rows = [] then
        (case np_broadcast (+) v [] of Inl e \<Rightarrow> Inl e | Inr none \<Rightarrow> Inr [])
      else collect (map (np_broadcast (+) v) rows))"

subsection \<open>Transition dipole moments (lines 34-50)\<close>

definition transition_dipole_moments ::
  "'m collaborators \<Rightarrow> 'm solver_state \<Rightarrow> error + real list list" where
  "transition_dipole_moments env state =
     (case ground_to_excited_tdms state of
        None \<Rightarrow> Inl (ValueError
          ''Cannot compute transition dipole moment without transition densities.'')
      | Some tdms \<Rightarrow>
          (case electric_dipole (operator_integrals (reference_state state)) of
             None \<Rightarrow> Inl (ValueError
               ''Reference state cannot provide electric dipole integrals.'')
           | Some dipole_integrals \<Rightarrow>
               Inr (map (\<lambda>tdm. map (\<lambda>comp. product_trace env comp tdm) dipole_integrals)
                      tdms)))"

subsection \<open>Oscillator strengths (lines 53-67)\<close>

text \<open>
  \<open>zip\<close> stops at the shorter of its two arguments; the factor \<open>2/3\<close> multiplies the
  finished array. This embedding computes in real numbers; it carries the length and the
  pairing of the result and is what the orchestrators attach. The values in numpy's own
  arithmetic are the subject of the next subsection.
\<close>

definition oscillator_strengths :: "real list list \<Rightarrow> real list \<Rightarrow> real list" where
  "oscillator_strengths tdms energies =
     map (\<lambda>x. 2 / 3 * x)
       (map (\<lambda>(tdm, ev). (linalg_norm tdm) ^ 2 * \<bar>ev\<bar>) (zip tdms energies))"

subsection \<open>Oscillator strengths with numpy's number types\<close>

text \<open>
  A binary64 value: a finite number (the real number it denotes; the two zeros are not
  told apart), plus or minus infinity, or NaN.
\<close>

datatype b64 = Fin real | PInf | NInf | NaN

text \<open>Rounding to the nearest integer, ties to the even one.\<close>

definition rne :: "real \<Rightarrow> int" where
  "rne r = (let f = \<lfloor>r\<rfloor> in
              if r - of_int f < 1 / 2 then f
              else if 1 / 2 < r - of_int f then f + 1
              else if even f then f else f + 1)"

text \<open>
  Rounding a real number to binary64, to nearest with ties to even: 53 significant bits,
  the exponent not below \<open>-1022\<close> (below that the spacing stays \<open>2 ^ -1074\<close>), and
  infinity when the rounded magnitude reaches \<open>2 ^ 1024\<close>.
\<close>

definition b64_exponent :: "real \<Rightarrow> int" where
  "b64_exponent x = max \<lfloor>log 2 \<bar>x\<bar>\<rfloor> (- 1022)"

definition b64_ulp :: "real \<Rightarrow> real" where
  "b64_ulp x = 2 powi (b64_exponent x - 52)"

definition b64_round :: "real \<Rightarrow> real" where
  "b64_round x = (if x = 0 then 0 else of_int (rne (x / b64_ulp x)) * b64_ulp x)"

definition b64_of_real :: "real \<Rightarrow> b64" where
  "b64_of_real x =
     (let y = b64_round x
      in if 2 ^ 1024 \<le> \<bar>y\<bar> then (if 0 < x then PInf else NInf) else Fin y)"

text \<open>
  Multiplication, addition, square root and absolute value of IEEE 754: the exact result
  rounded, with the rules for infinities and NaN (infinity times zero, the sum of opposite
  infinities and the root of a negative number are NaN).
\<close>

fun fmul :: "b64 \<Rightarrow> b64 \<Rightarrow> b64" where
  "fmul NaN b = NaN"
| "fmul a NaN = NaN"
| "fmul (Fin x) (Fin y) = b64_of_real (x * y)"
| "fmul (Fin x) PInf = (if x = 0 then NaN else if 0 < x then PInf else NInf)"
| "fmul (Fin x) NInf = (if x = 0 then NaN else if 0 < x then NInf else PInf)"
| "fmul PInf (Fin y) = (if y = 0 then NaN else if 0 < y then PInf else NInf)"
| "fmul NInf (Fin y) = (if y = 0 then NaN else if 0 < y then NInf else PInf)"
| "fmul PInf PInf = PInf"
| "fmul PInf NInf = NInf"
| "fmul NInf PInf = NInf"
| "fmul NInf NInf = PInf"

fun fadd :: "b64 \<Rightarrow> b64 \<Rightarrow> b64" where
  "fadd NaN b = NaN"
| "fadd a NaN = NaN"
| "fadd (Fin x) (Fin y) = b64_of_real (x + y)"
| "fadd (Fin x) PInf = PInf"
| "fadd (Fin x) NInf = NInf"
| "fadd PInf (Fin y) = PInf"
| "fadd NInf (Fin y) = NInf"
| "fadd PInf PInf = PInf"
| "fadd NInf NInf = NInf"
| "fadd PInf NInf = NaN"
| "fadd NInf PInf = NaN"

fun fsqrt :: "b64 \<Rightarrow> b64" where
  "fsqrt NaN = NaN"
| "fsqrt NInf = NaN"
| "fsqrt PInf = PInf"
| "fsqrt (Fin x) = (if x < 0 then NaN else b64_of_real (sqrt x))"

fun fabs :: "b64 \<Rightarrow> b64" where
  "fabs NaN = NaN"
| "fabs PInf = PInf"
| "fabs NInf = PInf"
| "fabs (Fin x) = Fin \<bar>x\<bar>"

text \<open>
  An energy is a binary64 number or an int64 integer, the element types numpy gives to
  Python floats and ints. \<open>np.abs\<close> keeps the type; on int64 it negates in two's
  complement, which wraps at \<open>-2 ^ 63\<close>. The product with a binary64 number converts the
  integer to binary64.
\<close>

datatype energy = Float64 b64 | Int64 "64 word"

fun np_abs :: "energy \<Rightarrow> energy" where
  "np_abs (Float64 f) = Float64 (fabs f)"
| "np_abs (Int64 w) = Int64 (if sint w < 0 then - w else w)"

fun to_float64 :: "energy \<Rightarrow> b64" where
  "to_float64 (Float64 f) = f"
| "to_float64 (Int64 w) = b64_of_real (real_of_int (sint w))"

text \<open>
  \<open>np.linalg.norm\<close> of a one-dimensional real array is \<open>sqrt(x.dot(x))\<close>; the products
  are summed from the left, each operation rounded.
\<close>

definition linalg_norm_b64 :: "b64 list \<Rightarrow> b64" where
  "linalg_norm_b64 v = fsqrt (foldl fadd (Fin 0) (map (\<lambda>x. fmul x x) v))"

text \<open>
  Lines 63-66 on these types: \<open>norm(tdm)**2\<close> is the product of the norm with itself,
  \<open>2. / 3.\<close> is the binary64 quotient, and the factor multiplies every element of the
  finished array.
\<close>

definition oscillator_strengths_b64 :: "b64 list list \<Rightarrow> energy list \<Rightarrow> b64 list" where
  "oscillator_strengths_b64 tdms energies =
     map (fmul (b64_of_real (2 / 3)))
       (map (\<lambda>(tdm, ev). fmul (fmul (linalg_norm_b64 tdm) (linalg_norm_b64 tdm))
                              (to_float64 (np_abs ev)))
          (zip tdms energies))"

text \<open>A binary64 value that is not NaN and not below zero.\<close>

definition nonneg_b64 :: "b64 \<Rightarrow> bool" where
  "nonneg_b64 v = (case v of Fin r \<Rightarrow> 0 \<le> r | PInf \<Rightarrow> True | NInf \<Rightarrow> False | NaN \<Rightarrow> False)"

subsection \<open>State dipole moments (lines 70-110)\<close>

text \<open>
  Lines 82-85: the method argument when it is given, the state's own method otherwise;
  a raw label goes through the constructor \<open>AdcMethod\<close>, which may reject it.
\<close>

definition effective_method ::
  "'m collaborators \<Rightarrow> 'm solver_state \<Rightarrow> method_arg option \<Rightarrow> error + adc_method" where
  "effective_method env state method_opt =
     (case (case method_opt of None \<Rightarrow> method_attr state | Some m \<Rightarrow> m) of
        Method m \<Rightarrow> Inr m
      | Label l \<Rightarrow> AdcMethod env l)"

text \<open>Lines 100-105: the ground-state dipole moment.\<close>

definition gs_dip_moment ::
  "'m collaborators \<Rightarrow> 'm solver_state \<Rightarrow> 'm list \<Rightarrow> error + real list" where
  "gs_dip_moment env state dipole_integrals =
     (let hf_dm = HfDensityMatrix env (reference_state state);
          mp2 = mp2_diffdm (ground_state state)
      in np_broadcast (-)
           (map (\<lambda>comp. product_trace env comp hf_dm + product_trace env comp mp2)
              dipole_integrals)
           (nuclear_dipole (reference_state state)))"

definition state_dipole_moments ::
  "'m collaborators \<Rightarrow> 'm solver_state \<Rightarrow> method_arg option \<Rightarrow> error + real list list" where
  "state_dipole_moments env state method_opt =
     (case state_diffdms state of
        None \<Rightarrow> Inl (ValueError
          ''Cannot compute transition dipole moment without state densities.'')
      | Some ddms \<Rightarrow>
          (case electric_dipole (operator_integrals (reference_state state)) of
             None \<Rightarrow> Inl (ValueError
               ''Reference state cannot provide electric dipole integrals.'')
           | Some dipole_integrals \<Rightarrow>
               (case effective_method env state method_opt of
                  Inl e \<Rightarrow> Inl e
                | Inr m \<Rightarrow>
                    if property_method m \<in> set [''adc0'', ''adc1''] then
                      Inl (NotImplementedError
                        ''ADC(0) and ADC(1) state dipole moments not yet implemented.'')
                    else
                      (case gs_dip_moment env state dipole_integrals of
                         Inl e \<Rightarrow> Inl e
                       | Inr gs \<Rightarrow>
                           np_add_rows gs
                             (map (\<lambda>ddm. map (\<lambda>comp. product_trace env comp ddm)
                                           dipole_integrals)
                                ddms)))))"

subsection \<open>Attaching the properties (lines 113-152)\<close>

text \<open>
  The orchestrators set attributes on objects, so they run on a world: the object store
  and a count of the calls made to the density provider. A reference is an index into
  the store. Each function returns the world it leaves behind, also when it raises.

  A Python reference always points to an object; the properties below say so with
  \<open>r < length (heap w)\<close>. The values of the attributes (arrays, densities) are not
  objects of the store: no function of the module changes one in place, and the shallow
  copy shares them with the original.
\<close>

record 'm world =
  heap :: "'m store"
  provider_calls :: nat

text \<open>One call of \<open>attach_state_densities\<close>.\<close>

definition call_provider ::
  "'m collaborators \<Rightarrow> 'm world \<Rightarrow> nat \<Rightarrow> density_flags \<Rightarrow> method_arg option
     \<Rightarrow> 'm world \<times> (error + nat)" where
  "call_provider env w r flags method_opt =
     (case attach_state_densities env (heap w) r flags method_opt of
        (h, res) \<Rightarrow> (\<lparr>heap = h, provider_calls = Suc (provider_calls w)\<rparr>, res))"

text \<open>\<open>copy(obj)\<close>: a new object with the same attributes.\<close>

definition copy :: "'m world \<Rightarrow> nat \<Rightarrow> 'm world \<times> nat" where
  "copy w r = (w\<lparr>heap := heap w @ [heap w ! r]\<rparr>, length (heap w))"

definition attach_state_properties ::
  "'m collaborators \<Rightarrow> 'm world \<Rightarrow> nat \<Rightarrow> method_arg option \<Rightarrow> 'm world \<times> (error + nat)" where
  "attach_state_properties env w r method_opt =
     (case (if state_diffdms (heap w ! r) = None
            then call_provider env w r
                   \<lparr>state_diffdm = True, ground_to_excited_tdm = False,
                    state_to_state_tdm = False\<rparr> method_opt
            else (w, Inr r)) of
        (w1, Inl e) \<Rightarrow> (w1, Inl e)
      | (w1, Inr r1) \<Rightarrow>
          (case state_dipole_moments env (heap w1 ! r1) method_opt of
             Inl e \<Rightarrow> (w1, Inl e)
           | Inr d \<Rightarrow>
               (w1\<lparr>heap := (heap w1)[r1 := (heap w1 ! r1)\<lparr>state_dipole_moments_attr := Some d\<rparr>]\<rparr>,
                Inr r1)))"

definition attach_transition_properties ::
  "'m collaborators \<Rightarrow> 'm world \<Rightarrow> nat \<Rightarrow> method_arg option \<Rightarrow> 'm world \<times> (error + nat)" where
  "attach_transition_properties env w r method_opt =
     (case (if ground_to_excited_tdms (heap w ! r) = None
            then call_provider env w r
                   \<lparr>state_diffdm = False, ground_to_excited_tdm = True,
                    state_to_state_tdm = False\<rparr> method_opt
            else (w, Inr r)) of
        (w1, Inl e) \<Rightarrow> (w1, Inl e)
      | (w1, Inr r1) \<Rightarrow>
          (case transition_dipole_moments env (heap w1 ! r1) of
             Inl e \<Rightarrow> (w1, Inl e)
           | Inr t \<Rightarrow>
               (let s2 = (heap w1 ! r1)\<lparr>transition_dipole_moments_attr := Some t\<rparr>;
                    s3 = s2\<lparr>oscillator_strengths_attr :=
                              Some (oscillator_strengths
                                      (the (transition_dipole_moments_attr s2))
                                      (eigenvalues s2))\<rparr>
                in (w1\<lparr>heap := (heap w1)[r1 := s3]\<rparr>, Inr r1))))"

definition attach_properties ::
  "'m collaborators \<Rightarrow> 'm world \<Rightarrow> nat \<Rightarrow> bool \<Rightarrow> bool \<Rightarrow> method_arg option
     \<Rightarrow> 'm world \<times> (error + nat)" where
  "attach_properties env w r transition_properties state_properties method_opt =
     (case copy w r of
        (w0, r0) \<Rightarrow>
          (case (if state_properties then attach_state_properties env w0 r0 method_opt
                 else (w0, Inr r0)) of
             (w1, Inl e) \<Rightarrow> (w1, Inl e)
           | (w1, Inr r1) \<Rightarrow>
               (if transition_properties
                then attach_transition_properties env w1 r1 method_opt
                else (w1, Inr r1))))"

subsection \<open>What the density provider may touch\<close>

text \<open>
  The provider is handed one reference. The contract under which the orchestrators are
  studied: it changes no object of the store but the one it was handed, it may create
  objects, and the reference it returns is the one it was handed or one it created.
\<close>

definition provider_frame ::
  "('m store \<Rightarrow> nat \<Rightarrow> density_flags \<Rightarrow> method_arg option \<Rightarrow> 'm store \<times> (error + nat))
     \<Rightarrow> bool" where
  "provider_frame p \<longleftrightarrow>
     (\<forall>h r flags m. r < length h \<longrightarrow>
        (case p h r flags m of
           (h', res) \<Rightarrow>
             length h \<le> length h' \<and>
             (\<forall>c < length h. c \<noteq> r \<longrightarrow> h' ! c = h ! c) \<and>
             (case res of
                Inl e \<Rightarrow> True
              | Inr r' \<Rightarrow> r' < length h' \<and> (r' = r \<or> length h \<le> r'))))"

subsection \<open>Sample collaborators and states\<close>

text \<open>
  Concrete collaborators over matrices given as lists of rows, for evaluating the
  functions on the scenarios of the specification.
\<close>

type_synonym matrix = "real list list"

text \<open>
  Modelled from the spec: \<open>product_trace\<close> of \<open>OneParticleOperator\<close>, whose code is not
  part of \<open>properties.py\<close>. The specification describes it as the sum, over all index
  pairs, of the elementwise product of two equally shaped matrices.
\<close>

definition product_trace_spec :: "matrix \<Rightarrow> matrix \<Rightarrow> real" where
  "product_trace_spec a b =
     sum_list (map (\<lambda>(ra, rb). sum_list (map2 (*) ra rb)) (zip a b))"

text \<open>
  A provider that works in place: it attaches one density per eigenvalue for every kind
  the flags request, and returns the reference it was handed.
\<close>

definition sample_provider ::
  "matrix store \<Rightarrow> nat \<Rightarrow> density_flags \<Rightarrow> method_arg option \<Rightarrow> matrix store \<times> (error + nat)" where
  "sample_provider h r flags m =
     (let s = h ! r;
          ds = map (\<lambda>ev. [[1 / 5]]) (eigenvalues s);
          s1 = (if state_diffdm flags then s\<lparr>state_diffdms := Some ds\<rparr> else s);
          s2 = (if ground_to_excited_tdm flags
                then s1\<lparr>ground_to_excited_tdms := Some ds\<rparr> else s1)
      in (h[r := s2], Inr r))"

definition sample_env :: "matrix collaborators" where
  "sample_env =
     \<lparr>product_trace = product_trace_spec,
      HfDensityMatrix = (\<lambda>ref. [[7 / 10]]),
      AdcMethod = (\<lambda>label. Inr \<lparr>property_method = label\<rparr>),
      attach_state_densities = sample_provider\<rparr>"

text \<open>
  A solver state with one excitation energy, three dipole components and no densities
  yet.
\<close>

definition sample_state :: "matrix solver_state" where
  "sample_state =
     \<lparr>eigenvalues = [1 / 2],
      method_attr = Label ''adc2'',
      reference_state =
        \<lparr>operator_integrals = \<lparr>electric_dipole = Some [[[1]], [[0]], [[0]]]\<rparr>,
         nuclear_dipole = [3 / 10, 0, 0]\<rparr>,
      ground_state = \<lparr>mp2_diffdm = [[3 / 10]]\<rparr>,
      state_diffdms = None,
      ground_to_excited_tdms = None,
      transition_dipole_moments_attr = None,
      oscillator_strengths_attr = None,
      state_dipole_moments_attr = None\<rparr>"

text \<open>
  The scenario of the specification for transition moments: two dipole components
  \<open>[[2]]\<close> and \<open>[[3]]\<close> and one transition density \<open>[[1]]\<close>.
\<close>

definition two_component_state :: "matrix solver_state" where
  "two_component_state =
     sample_state
       \<lparr>reference_state :=
          \<lparr>operator_integrals = \<lparr>electric_dipole = Some [[[2]], [[3]]]\<rparr>,
           nuclear_dipole = [0, 0]\<rparr>,
        ground_to_excited_tdms := Some [[[1]]]\<rparr>"

text \<open>A state that has its difference densities but no dipole integrals.\<close>

definition no_dipole_state :: "matrix solver_state" where
  "no_dipole_state =
     sample_state
       \<lparr>reference_state :=
          \<lparr>operator_integrals = \<lparr>electric_dipole = None\<rparr>,
           nuclear_dipole = [3 / 10, 0, 0]\<rparr>,
        state_diffdms := Some [[[1 / 5]]]\<rparr>"

text \<open>A world holding the sample state alone, before any call of the provider.\<close>

definition sample_world :: "matrix world" where
  "sample_world = \<lparr>heap = [sample_state], provider_calls = 0\<rparr>"

section \<open>Properties\<close>

subsection \<open>Auxiliary facts\<close>

lemma linalg_norm_sq: "(linalg_norm v) ^ 2 = sum_list (map (\<lambda>x. x ^ 2) v)"
proof -
  have "0 \<le> sum_list (map (\<lambda>x. x ^ 2) v)"
    by (rule sum_list_nonneg) auto
  then show ?thesis by (simp add: linalg_norm_def)
qed

lemma oscillator_strengths_length:
  "length (oscillator_strengths tdms energies) = min (length tdms) (length energies)"
  by (simp add: oscillator_strengths_def)

lemma oscillator_strengths_nth:
  "i < length tdms \<Longrightarrow> i < length energies \<Longrightarrow>
   oscillator_strengths tdms energies ! i
     = 2 / 3 * ((linalg_norm (tdms ! i)) ^ 2 * \<bar>energies ! i\<bar>)"
  by (simp add: oscillator_strengths_def)

lemma collect_map_Inr: "collect (map (\<lambda>x. Inr (f x)) xs) = Inr (map f xs)"
  by (induction xs) simp_all

lemma np_broadcast_same_length:
  "length xs = length ys \<Longrightarrow> np_broadcast f xs ys = Inr (map2 f xs ys)"
  by (simp add: np_broadcast_def)

lemma np_add_rows_same_length:
  assumes "rows \<noteq> []" and "\<forall>row \<in> set rows. length row = length v"
  shows "np_add_rows v rows = Inr (map (\<lambda>row. map2 (+) v row) rows)"
proof -
  have eq: "map (np_broadcast (+) v) rows = map (\<lambda>row. Inr (map2 (+) v row)) rows"
    using assms(2) by (simp add: np_broadcast_same_length)
  show ?thesis
    unfolding np_add_rows_def eq using assms(1) by (simp add: collect_map_Inr)
qed

subsection \<open>Oscillator strengths\<close>

text \<open>
  C10. With \<open>N\<close> transition dipole vectors and \<open>M\<close> energies, \<open>oscillator_strengths\<close>
  raises nothing (it is a total function with no error result) and returns
  \<open>min N M\<close> values: the inputs are paired by position and what the longer sequence has
  beyond the shorter one is dropped.
\<close>

theorem oscillator_strengths_unequal_lengths:
  "length (oscillator_strengths tdms energies) = min (length tdms) (length energies) \<and>
   (\<forall>i < min (length tdms) (length energies).
      oscillator_strengths tdms energies ! i
        = 2 / 3 * ((linalg_norm (tdms ! i)) ^ 2 * \<bar>energies ! i\<bar>))"
  by (simp add: oscillator_strengths_length oscillator_strengths_nth)

theorem oscillator_strengths_unequal_lengths_witness:
  "oscillator_strengths [[1, 0], [0, 3], [5, 5]] [2, - 1] = [4 / 3, 6] \<and>
   length (oscillator_strengths [[1, 0], [0, 3], [5, 5]] [2, - 1]) = min 3 2"
proof -
  have e: "oscillator_strengths [[1, 0], [0, 3], [5, 5]] [2, - 1] = [4 / 3, 6]"
    by (simp add: oscillator_strengths_def linalg_norm_sq)
  from e oscillator_strengths_unequal_lengths
      [of "[[1, 0], [0, 3], [5, 5]]" "[2, - 1]"]
  show ?thesis by simp
qed

subsection \<open>Oscillator strengths in binary64\<close>

text \<open>How a real number is rounded, once its binade and its nearest grid point are known.\<close>

lemma rne_unique:
  assumes "\<bar>r - of_int m\<bar> < 1 / 2"
  shows "rne r = m"
proof (cases "of_int m \<le> r")
  case True
  with assms have "\<lfloor>r\<rfloor> = m" by (intro floor_unique) auto
  with assms True show ?thesis by (simp add: rne_def)
next
  case False
  with assms have f: "\<lfloor>r\<rfloor> = m - 1" by (intro floor_unique) auto
  from assms False have "1 / 2 < r - of_int (m - 1)" by auto
  with f show ?thesis by (simp add: rne_def)
qed

lemma rne_nonneg: "0 \<le> r \<Longrightarrow> 0 \<le> rne r"
  by (auto simp: rne_def Let_def)

lemma b64_ulp_pos: "0 < b64_ulp x"
  by (simp add: b64_ulp_def)

lemma b64_round_nonneg: "0 \<le> x \<Longrightarrow> 0 \<le> b64_round x"
  using b64_ulp_pos [of x] by (simp add: b64_round_def rne_nonneg)

lemma b64_exponent_eqI:
  fixes e :: int
  assumes "2 powi e \<le> \<bar>x\<bar>" and "\<bar>x\<bar> < 2 powi (e + 1)" and "- 1022 \<le> e"
  shows "b64_exponent x = e"
proof -
  have "(0 :: real) < 2 powi e" by simp
  with assms(1) have pos: "0 < \<bar>x\<bar>" by linarith
  have p: "(2 :: real) powr (of_int k) = 2 powi k" for k :: int
    by (simp add: powr_real_of_int')
  have lo: "2 powr (of_int e) \<le> \<bar>x\<bar>"
    unfolding p using assms(1) .
  have hi: "\<bar>x\<bar> < 2 powr (of_int (e + 1))"
    unfolding p using assms(2) .
  have "\<lfloor>log 2 \<bar>x\<bar>\<rfloor> = e"
  proof (rule floor_unique)
    from lo show "of_int e \<le> log 2 \<bar>x\<bar>"
      using pos by (simp add: le_log_iff)
    from hi have "log 2 \<bar>x\<bar> < of_int (e + 1)"
      using pos by (simp add: log_less_iff del: of_int_add)
    then show "log 2 \<bar>x\<bar> < of_int e + 1" by simp
  qed
  with assms(3) show ?thesis by (simp add: b64_exponent_def)
qed

lemma b64_of_real_eqI:
  fixes e m :: int
  assumes "2 powi e \<le> \<bar>x\<bar>" and "\<bar>x\<bar> < 2 powi (e + 1)" and "- 1022 \<le> e"
    and "\<bar>x / 2 powi (e - 52) - of_int m\<bar> < 1 / 2"
    and "\<bar>of_int m * 2 powi (e - 52)\<bar> < (2 :: real) ^ 1024"
  shows "b64_of_real x = Fin (of_int m * 2 powi (e - 52))"
proof -
  have x: "x \<noteq> 0"
  proof
    assume "x = 0"
    with assms(1) have "(2 :: real) powi e \<le> 0" by simp
    moreover have "(0 :: real) < 2 powi e" by simp
    ultimately show False by linarith
  qed
  have u: "b64_ulp x = 2 powi (e - 52)"
    by (simp add: b64_ulp_def b64_exponent_eqI [OF assms(1,2,3)])
  have "b64_round x = of_int m * 2 powi (e - 52)"
    using x by (simp add: b64_round_def u rne_unique [OF assms(4)])
  with assms(5) show ?thesis by (simp add: b64_of_real_def)
qed

lemma b64_of_real_0: "b64_of_real 0 = Fin 0"
  by (simp add: b64_of_real_def b64_round_def)

lemma b64_round_eqI:
  fixes e m :: int
  assumes "2 powi e \<le> \<bar>x\<bar>" and "\<bar>x\<bar> < 2 powi (e + 1)" and "- 1022 \<le> e"
    and "\<bar>x / 2 powi (e - 52) - of_int m\<bar> < 1 / 2"
  shows "b64_round x = of_int m * 2 powi (e - 52)"
proof -
  have x: "x \<noteq> 0"
  proof
    assume "x = 0"
    with assms(1) have "(2 :: real) powi e \<le> 0" by simp
    moreover have "(0 :: real) < 2 powi e" by simp
    ultimately show False by linarith
  qed
  have u: "b64_ulp x = 2 powi (e - 52)"
    by (simp add: b64_ulp_def b64_exponent_eqI [OF assms(1,2,3)])
  show ?thesis
    using x by (simp add: b64_round_def u rne_unique [OF assms(4)])
qed

text \<open>
  The operations on the scenario of the specification, the vector \<open>[2.0, 3.0]\<close> and the
  energy \<open>0.5\<close>: the norm is \<open>3.605551275463989\<close>, its square \<open>12.999999999999998\<close>, and
  the result \<open>4.333333333333332\<close>, while \<open>2/3 * 13 * 0.5\<close> rounds to
  \<open>4.333333333333333\<close>.
\<close>

lemma fmul_2_2: "fmul (Fin 2) (Fin 2) = Fin 4"
  using b64_of_real_eqI [of 2 4 "2 ^ 52"]
  by (simp add: power_int_def power_one_over)

lemma fmul_3_3: "fmul (Fin 3) (Fin 3) = Fin 9"
  using b64_of_real_eqI [of 3 9 "9 * 2 ^ 49"]
  by (simp add: power_int_def power_one_over)

lemma fadd_0_4: "fadd (Fin 0) (Fin 4) = Fin 4"
  using b64_of_real_eqI [of 2 4 "2 ^ 52"]
  by (simp add: power_int_def power_one_over)

lemma fadd_4_9: "fadd (Fin 4) (Fin 9) = Fin 13"
  using b64_of_real_eqI [of 3 13 "13 * 2 ^ 49"]
  by (simp add: power_int_def power_one_over)

lemma sqrt_13_lower: "(2 * 8118979690322419 - 1) / 2 ^ 52 < sqrt 13"
  by (rule real_less_rsqrt) (simp add: power2_eq_square)

lemma sqrt_13_upper: "sqrt 13 < (2 * 8118979690322419 + 1) / 2 ^ 52"
  by (rule real_less_lsqrt) (simp_all add: power2_eq_square)

lemma fsqrt_13: "fsqrt (Fin 13) = Fin (8118979690322419 / 2 ^ 51)"
proof -
  have "b64_of_real (sqrt 13) = Fin (of_int 8118979690322419 * 2 powi (1 - 52))"
  proof (rule b64_of_real_eqI)
    show "2 powi 1 \<le> \<bar>sqrt 13\<bar>"
      using sqrt_13_lower by (simp add: power_int_def)
    show "\<bar>sqrt 13\<bar> < 2 powi (1 + 1)"
      using sqrt_13_upper by (simp add: power_int_def)
    show "- 1022 \<le> (1 :: int)" by simp
    show "\<bar>sqrt 13 / 2 powi (1 - 52) - of_int 8118979690322419\<bar> < 1 / 2"
      unfolding abs_less_iff using sqrt_13_lower sqrt_13_upper
      by (simp add: power_int_def power_one_over)
    show "\<bar>of_int 8118979690322419 * 2 powi (1 - 52)\<bar> < (2 :: real) ^ 1024"
      by (simp add: power_int_def power_one_over)
  qed
  then show ?thesis by (simp add: power_int_def power_one_over)
qed

lemma fmul_sqrt_13:
  "fmul (Fin (8118979690322419 / 2 ^ 51)) (Fin (8118979690322419 / 2 ^ 51))
     = Fin (7318349394477055 / 2 ^ 49)"
  using b64_of_real_eqI
    [of 3 "(8118979690322419 / 2 ^ 51) * (8118979690322419 / 2 ^ 51)" 7318349394477055]
  by (simp add: power_int_def power_one_over)

lemma fabs_half: "fabs (Fin (1 / 2)) = Fin (1 / 2)"
  by simp

lemma fmul_half:
  "fmul (Fin (7318349394477055 / 2 ^ 49)) (Fin (1 / 2)) = Fin (7318349394477055 / 2 ^ 50)"
  using b64_of_real_eqI [of 2 "7318349394477055 / 2 ^ 49 * (1 / 2)" 7318349394477055]
  by (simp add: power_int_def power_one_over)

lemma b64_two_thirds: "b64_of_real (2 / 3) = Fin (6004799503160661 / 2 ^ 53)"
  using b64_of_real_eqI [of "- 1" "2 / 3" 6004799503160661]
  by (simp add: power_int_def power_one_over)

lemma fmul_two_thirds:
  "fmul (Fin (6004799503160661 / 2 ^ 53)) (Fin (7318349394477055 / 2 ^ 50))
     = Fin (4878899596318036 / 2 ^ 50)"
  using b64_of_real_eqI
    [of 2 "6004799503160661 / 2 ^ 53 * (7318349394477055 / 2 ^ 50)" 4878899596318036]
  by (simp add: power_int_def power_one_over)

lemma b64_13_thirds: "b64_of_real (2 / 3 * 13 * (1 / 2)) = Fin (4878899596318037 / 2 ^ 50)"
  using b64_of_real_eqI [of 2 "2 / 3 * 13 * (1 / 2)" 4878899596318037]
  by (simp add: power_int_def power_one_over)

lemma oscillator_strengths_b64_example:
  "oscillator_strengths_b64 [[Fin 2, Fin 3]] [Float64 (Fin (1 / 2))]
     = [Fin (4878899596318036 / 2 ^ 50)]"
  by (simp only: oscillator_strengths_b64_def linalg_norm_b64_def list.map zip_Cons_Cons
        zip_Nil prod.case foldl_Cons foldl_Nil np_abs.simps to_float64.simps
        fmul_2_2 fmul_3_3 fadd_0_4 fadd_4_9 fsqrt_13 fmul_sqrt_13 fabs_half fmul_half
        b64_two_thirds fmul_two_thirds)

text \<open>
  Three more inputs: a component whose square overflows with an energy of zero, the
  int64 energy \<open>-2 ^ 63\<close>, and components and an energy of negative sign.
\<close>

lemma fmul_0_0: "fmul (Fin 0) (Fin 0) = Fin 0"
  by (simp add: b64_of_real_0)

lemma fmul_overflow: "fmul (Fin (2 ^ 700)) (Fin (2 ^ 700)) = PInf"
proof -
  have "b64_round (2 ^ 700 * 2 ^ 700) = of_int (2 ^ 52) * 2 powi (1400 - 52)"
    by (rule b64_round_eqI) (simp_all add: power_int_def)
  then show ?thesis by (simp add: b64_of_real_def power_int_def)
qed

lemma linalg_norm_b64_overflow: "linalg_norm_b64 [Fin (2 ^ 700), Fin 0, Fin 0] = PInf"
proof -
  have "linalg_norm_b64 [Fin (2 ^ 700), Fin 0, Fin 0]
          = fsqrt (fadd (fadd (fadd (Fin 0) PInf) (Fin 0)) (Fin 0))"
    by (simp only: linalg_norm_b64_def list.map foldl_Cons foldl_Nil fmul_overflow fmul_0_0)
  then show ?thesis by simp
qed

lemma oscillator_strengths_b64_nan:
  "oscillator_strengths_b64 [[Fin (2 ^ 700), Fin 0, Fin 0]] [Float64 (Fin 0)] = [NaN]"
proof -
  have "oscillator_strengths_b64 [[Fin (2 ^ 700), Fin 0, Fin 0]] [Float64 (Fin 0)]
          = [fmul (b64_of_real (2 / 3)) (fmul (fmul PInf PInf) (fabs (Fin 0)))]"
    by (simp only: oscillator_strengths_b64_def list.map zip_Cons_Cons zip_Nil prod.case
          np_abs.simps to_float64.simps linalg_norm_b64_overflow)
  then show ?thesis by (simp add: b64_two_thirds)
qed

lemma fmul_1_1: "fmul (Fin 1) (Fin 1) = Fin 1"
  using b64_of_real_eqI [of 0 1 "2 ^ 52"]
  by (simp add: power_int_def power_one_over)

lemma fadd_0_1: "fadd (Fin 0) (Fin 1) = Fin 1"
  using b64_of_real_eqI [of 0 1 "2 ^ 52"]
  by (simp add: power_int_def power_one_over)

lemma fsqrt_1: "fsqrt (Fin 1) = Fin 1"
  using b64_of_real_eqI [of 0 1 "2 ^ 52"]
  by (simp add: power_int_def power_one_over)

lemma to_float64_int64_min:
  "to_float64 (np_abs (Int64 (- (2 ^ 63)))) = Fin (- (2 ^ 63))"
proof -
  have "b64_of_real (- (2 ^ 63)) = Fin (of_int (- (2 ^ 52)) * 2 powi (63 - 52))"
    by (rule b64_of_real_eqI) (simp_all add: power_int_def)
  then show ?thesis by (simp add: power_int_def)
qed

lemma fmul_1_int64_min: "fmul (Fin 1) (Fin (- (2 ^ 63))) = Fin (- (2 ^ 63))"
proof -
  have "b64_of_real (- (2 ^ 63)) = Fin (of_int (- (2 ^ 52)) * 2 powi (63 - 52))"
    by (rule b64_of_real_eqI) (simp_all add: power_int_def)
  then show ?thesis by (simp add: power_int_def)
qed

lemma fmul_two_thirds_int64_min:
  "fmul (Fin (6004799503160661 / 2 ^ 53)) (Fin (- (2 ^ 63))) = Fin (- 6148914691236516864)"
proof -
  have "b64_of_real (6004799503160661 / 2 ^ 53 * - (2 ^ 63))
          = Fin (of_int (- 6004799503160661) * 2 powi (62 - 52))"
    by (rule b64_of_real_eqI) (simp_all add: power_int_def)
  then show ?thesis by (simp add: power_int_def)
qed

lemma oscillator_strengths_b64_int64_min:
  "oscillator_strengths_b64 [[Fin 1]] [Int64 (- (2 ^ 63))] = [Fin (- 6148914691236516864)]"
  by (simp only: oscillator_strengths_b64_def linalg_norm_b64_def list.map zip_Cons_Cons
        zip_Nil prod.case foldl_Cons foldl_Nil to_float64_int64_min
        fmul_1_1 fadd_0_1 fsqrt_1 fmul_1_int64_min b64_two_thirds fmul_two_thirds_int64_min)

lemma fmul_m4_m4: "fmul (Fin (- 4)) (Fin (- 4)) = Fin 16"
  using b64_of_real_eqI [of 4 16 "2 ^ 52"]
  by (simp add: power_int_def power_one_over)

lemma fadd_0_9: "fadd (Fin 0) (Fin 9) = Fin 9"
  using b64_of_real_eqI [of 3 9 "9 * 2 ^ 49"]
  by (simp add: power_int_def power_one_over)

lemma fadd_9_16: "fadd (Fin 9) (Fin 16) = Fin 25"
  using b64_of_real_eqI [of 4 25 "25 * 2 ^ 48"]
  by (simp add: power_int_def power_one_over)

lemma fsqrt_25: "fsqrt (Fin 25) = Fin 5"
proof -
  have "sqrt 25 = 5" by (rule real_sqrt_unique) simp_all
  then show ?thesis
    using b64_of_real_eqI [of 2 5 "5 * 2 ^ 50"]
    by (simp add: power_int_def power_one_over)
qed

lemma fmul_5_5: "fmul (Fin 5) (Fin 5) = Fin 25"
  using b64_of_real_eqI [of 4 25 "25 * 2 ^ 48"]
  by (simp add: power_int_def power_one_over)

lemma fabs_m2: "fabs (Fin (- 2)) = Fin 2"
  by simp

lemma fmul_25_2: "fmul (Fin 25) (Fin 2) = Fin 50"
  using b64_of_real_eqI [of 5 50 "50 * 2 ^ 47"]
  by (simp add: power_int_def power_one_over)

lemma fmul_two_thirds_50:
  "fmul (Fin (6004799503160661 / 2 ^ 53)) (Fin 50) = Fin (4691249611844266 / 2 ^ 47)"
  using b64_of_real_eqI [of 5 "6004799503160661 / 2 ^ 53 * 50" 4691249611844266]
  by (simp add: power_int_def power_one_over)

lemma oscillator_strengths_b64_signs:
  "oscillator_strengths_b64 [[Fin 3, Fin (- 4)]] [Float64 (Fin (- 2))]
     = [Fin (4691249611844266 / 2 ^ 47)]"
  by (simp only: oscillator_strengths_b64_def linalg_norm_b64_def list.map zip_Cons_Cons
        zip_Nil prod.case foldl_Cons foldl_Nil np_abs.simps to_float64.simps
        fmul_3_3 fmul_m4_m4 fadd_0_9 fadd_9_16 fsqrt_25 fmul_5_5 fabs_m2 fmul_25_2
        b64_two_thirds fmul_two_thirds_50)

text \<open>Rounding and the operations keep a value that is not below zero so, or give NaN.\<close>

lemma nonneg_b64_of_real: "0 \<le> x \<Longrightarrow> nonneg_b64 (b64_of_real x)"
  using b64_round_nonneg [of x]
  by (auto simp: b64_of_real_def nonneg_b64_def Let_def b64_round_def)

lemma fmul_nonneg:
  assumes "a = NaN \<or> nonneg_b64 a" and "b = NaN \<or> nonneg_b64 b"
  shows "fmul a b = NaN \<or> nonneg_b64 (fmul a b)"
proof (cases a)
  case (Fin x)
  with assms(1) have x: "0 \<le> x" by (simp add: nonneg_b64_def)
  show ?thesis
  proof (cases b)
    case (Fin y)
    with assms(2) have "0 \<le> y" by (simp add: nonneg_b64_def)
    with x have "0 \<le> x * y" by simp
    then show ?thesis using \<open>a = Fin x\<close> \<open>b = Fin y\<close> by (simp add: nonneg_b64_of_real)
  next
    case PInf
    with x \<open>a = Fin x\<close> show ?thesis by (auto simp: nonneg_b64_def)
  next
    case NInf
    with assms(2) show ?thesis by (simp add: nonneg_b64_def)
  next
    case NaN
    with \<open>a = Fin x\<close> show ?thesis by simp
  qed
next
  case PInf
  show ?thesis
  proof (cases b)
    case (Fin y)
    with assms(2) have "0 \<le> y" by (simp add: nonneg_b64_def)
    with PInf Fin show ?thesis by (auto simp: nonneg_b64_def)
  next
    case NInf
    with assms(2) show ?thesis by (simp add: nonneg_b64_def)
  qed (use PInf in \<open>simp_all add: nonneg_b64_def\<close>)
next
  case NInf
  with assms(1) show ?thesis by (simp add: nonneg_b64_def)
next
  case NaN
  then show ?thesis by simp
qed

lemma fmul_self_nonneg: "fmul a a = NaN \<or> nonneg_b64 (fmul a a)"
proof (cases a)
  case (Fin x)
  have "0 \<le> x * x" by simp
  then have "nonneg_b64 (b64_of_real (x * x))" by (rule nonneg_b64_of_real)
  with Fin show ?thesis by simp
qed (simp_all add: nonneg_b64_def)

lemma fadd_nonneg:
  assumes "a = NaN \<or> nonneg_b64 a" and "b = NaN \<or> nonneg_b64 b"
  shows "fadd a b = NaN \<or> nonneg_b64 (fadd a b)"
proof (cases a)
  case (Fin x)
  with assms(1) have x: "0 \<le> x" by (simp add: nonneg_b64_def)
  show ?thesis
  proof (cases b)
    case (Fin y)
    with assms(2) have "0 \<le> y" by (simp add: nonneg_b64_def)
    with x have "0 \<le> x + y" by simp
    then show ?thesis using \<open>a = Fin x\<close> \<open>b = Fin y\<close> by (simp add: nonneg_b64_of_real)
  next
    case NInf
    with assms(2) show ?thesis by (simp add: nonneg_b64_def)
  qed (use \<open>a = Fin x\<close> in \<open>simp_all add: nonneg_b64_def\<close>)
next
  case PInf
  show ?thesis
  proof (cases b)
    case NInf
    with assms(2) show ?thesis by (simp add: nonneg_b64_def)
  qed (use PInf in \<open>simp_all add: nonneg_b64_def\<close>)
next
  case NInf
  with assms(1) show ?thesis by (simp add: nonneg_b64_def)
next
  case NaN
  then show ?thesis by simp
qed

lemma foldl_fadd_nonneg:
  assumes "acc = NaN \<or> nonneg_b64 acc"
    and "\<forall>x \<in> set xs. x = NaN \<or> nonneg_b64 x"
  shows "foldl fadd acc xs = NaN \<or> nonneg_b64 (foldl fadd acc xs)"
  using assms
proof (induction xs arbitrary: acc)
  case Nil
  then show ?case by simp
next
  case (Cons x xs)
  from Cons.prems have "fadd acc x = NaN \<or> nonneg_b64 (fadd acc x)"
    by (intro fadd_nonneg) simp_all
  with Cons.prems show ?case by (simp add: Cons.IH)
qed

lemma fsqrt_nonneg:
  assumes "a = NaN \<or> nonneg_b64 a"
  shows "fsqrt a = NaN \<or> nonneg_b64 (fsqrt a)"
proof (cases a)
  case (Fin x)
  show ?thesis
  proof (cases "x < 0")
    case True
    with Fin show ?thesis by simp
  next
    case False
    have "0 \<le> sqrt x" using False by simp
    then have "nonneg_b64 (b64_of_real (sqrt x))" by (rule nonneg_b64_of_real)
    with Fin False show ?thesis by simp
  qed
next
  case NInf
  with assms show ?thesis by (simp add: nonneg_b64_def)
qed (simp_all add: nonneg_b64_def)

lemma linalg_norm_b64_nonneg:
  "linalg_norm_b64 v = NaN \<or> nonneg_b64 (linalg_norm_b64 v)"
  unfolding linalg_norm_b64_def
proof (rule fsqrt_nonneg, rule foldl_fadd_nonneg)
  show "Fin 0 = NaN \<or> nonneg_b64 (Fin 0)" by (simp add: nonneg_b64_def)
  show "\<forall>x \<in> set (map (\<lambda>x. fmul x x) v). x = NaN \<or> nonneg_b64 x"
    using fmul_self_nonneg by auto
qed

lemma fabs_nonneg: "fabs a = NaN \<or> nonneg_b64 (fabs a)"
  by (cases a) (simp_all add: nonneg_b64_def)

lemma sint_abs_nonneg:
  fixes w :: "64 word"
  assumes "w \<noteq> - (2 ^ 63)"
  shows "0 \<le> sint (if sint w < 0 then - w else w)"
proof (cases "sint w < 0")
  case True
  have "sint w \<noteq> - (2 ^ 63)"
  proof
    assume "sint w = - (2 ^ 63)"
    then have "sint w = sint (- (2 ^ 63) :: 64 word)" by simp
    then have "w = - (2 ^ 63)" by (rule signed_word_eqI)
    with assms show False by simp
  qed
  moreover have "- (2 ^ 63) \<le> sint w" using sint_ge [of w] by simp
  ultimately have lo: "- (2 ^ 63) < sint w" by linarith
  have "sint (- w) = signed_take_bit 63 (- sint w)"
    by (simp add: sint_word_minus)
  also have "\<dots> = - sint w"
    using lo True by (intro signed_take_bit_int_eq_self) simp_all
  finally show ?thesis using True by simp
next
  case False
  then show ?thesis by simp
qed

lemma to_float64_np_abs_nonneg:
  assumes "ev \<noteq> Int64 (- (2 ^ 63))"
  shows "to_float64 (np_abs ev) = NaN \<or> nonneg_b64 (to_float64 (np_abs ev))"
proof (cases ev)
  case (Float64 f)
  then show ?thesis using fabs_nonneg [of f] by simp
next
  case (Int64 w)
  with assms have "w \<noteq> - (2 ^ 63)" by simp
  from sint_abs_nonneg [OF this]
  have "0 \<le> real_of_int (sint (if sint w < 0 then - w else w))"
    by (simp only: of_int_0_le_iff)
  then have "nonneg_b64 (b64_of_real (real_of_int (sint (if sint w < 0 then - w else w))))"
    by (rule nonneg_b64_of_real)
  then show ?thesis
    unfolding Int64 np_abs.simps to_float64.simps by (rule disjI2)
qed

text \<open>
  When the sum of squares overflows and the energy is not zero, the element is plus
  infinity, where the formula over the reals is finite.
\<close>

lemma oscillator_strengths_b64_overflow:
  "oscillator_strengths_b64 [[Fin (2 ^ 700), Fin 0, Fin 0]] [Float64 (Fin (1 / 2))] = [PInf]"
proof -
  have "oscillator_strengths_b64 [[Fin (2 ^ 700), Fin 0, Fin 0]] [Float64 (Fin (1 / 2))]
          = [fmul (b64_of_real (2 / 3)) (fmul (fmul PInf PInf) (fabs (Fin (1 / 2))))]"
    by (simp only: oscillator_strengths_b64_def list.map zip_Cons_Cons zip_Nil prod.case
          np_abs.simps to_float64.simps linalg_norm_b64_overflow)
  then show ?thesis by (simp add: b64_two_thirds)
qed

text \<open>
  C2, as stated, fails: the returned numbers are binary64 results, and on the claim's own
  input, the vector \<open>[2.0, 3.0]\<close> and the energy \<open>0.5\<close>, the code returns neither the
  number \<open>2/3 * 13 * 0.5\<close> nor its binary64 rounding, but the binary64 number just below.
\<close>

theorem oscillator_strengths_b64_example_off:
  "oscillator_strengths_b64 [[Fin 2, Fin 3]] [Float64 (Fin (1 / 2))]
     \<noteq> [Fin (2 / 3 * 13 * (1 / 2))] \<and>
   oscillator_strengths_b64 [[Fin 2, Fin 3]] [Float64 (Fin (1 / 2))]
     \<noteq> [b64_of_real (2 / 3 * 13 * (1 / 2))]"
  unfolding oscillator_strengths_b64_example b64_13_thirds by simp

text \<open>
  C2, amended. For sequences of equal length \<open>N\<close>, \<open>oscillator_strengths\<close> returns \<open>N\<close>
  values in the order of the input. The \<open>i\<close>-th is the binary64 product of \<open>2/3\<close> with
  the product of the squared norm and the absolute value of the \<open>i\<close>-th energy, where the
  norm is the binary64 square root of the sum of the squares of the components of the
  \<open>i\<close>-th vector and every operation is rounded: the formula
  \<open>2/3 * norm ^ 2 * abs energy\<close> up to rounding, overflow and NaN. The witness is the
  claim's scenario, with the value \<open>4.333333333333332\<close>.
\<close>

theorem oscillator_strengths_b64_formula:
  assumes "length tdms = length energies"
  shows "length (oscillator_strengths_b64 tdms energies) = length tdms \<and>
         (\<forall>i < length tdms.
            oscillator_strengths_b64 tdms energies ! i =
              fmul (b64_of_real (2 / 3))
                (fmul
                   (fmul (fsqrt (foldl fadd (Fin 0) (map (\<lambda>x. fmul x x) (tdms ! i))))
                         (fsqrt (foldl fadd (Fin 0) (map (\<lambda>x. fmul x x) (tdms ! i)))))
                   (to_float64 (np_abs (energies ! i)))))"
  using assms by (simp add: oscillator_strengths_b64_def linalg_norm_b64_def)

theorem oscillator_strengths_b64_formula_witness:
  "length [[Fin 2, Fin 3]] = length [Float64 (Fin (1 / 2))] \<and>
   length (oscillator_strengths_b64 [[Fin 2, Fin 3]] [Float64 (Fin (1 / 2))]) = 1 \<and>
   oscillator_strengths_b64 [[Fin 2, Fin 3]] [Float64 (Fin (1 / 2))] ! 0
     = Fin (4878899596318036 / 2 ^ 50)"
proof -
  have h: "length [[Fin 2, Fin 3]] = length [Float64 (Fin (1 / 2))]" by simp
  have v: "fmul (b64_of_real (2 / 3))
             (fmul
                (fmul (fsqrt (foldl fadd (Fin 0) (map (\<lambda>x. fmul x x) [Fin 2, Fin 3])))
                      (fsqrt (foldl fadd (Fin 0) (map (\<lambda>x. fmul x x) [Fin 2, Fin 3]))))
                (to_float64 (np_abs (Float64 (Fin (1 / 2))))))
           = Fin (4878899596318036 / 2 ^ 50)"
    by (simp only: list.map foldl_Cons foldl_Nil np_abs.simps to_float64.simps
          fmul_2_2 fmul_3_3 fadd_0_4 fadd_4_9 fsqrt_13 fmul_sqrt_13 fabs_half fmul_half
          b64_two_thirds fmul_two_thirds)
  from oscillator_strengths_b64_formula [OF h] v show ?thesis by simp
qed

text \<open>
  C8, as stated, fails. When the sum of squares overflows and the energy is zero the
  element is NaN (infinity times zero), which is not a non-negative number; and for the
  int64 energy \<open>-2 ^ 63\<close> the absolute value wraps and the element is negative.
\<close>

theorem oscillator_strengths_b64_not_nonneg:
  "oscillator_strengths_b64 [[Fin (2 ^ 700), Fin 0, Fin 0]] [Float64 (Fin 0)] = [NaN] \<and>
   \<not> nonneg_b64 NaN \<and>
   oscillator_strengths_b64 [[Fin 1]] [Int64 (- (2 ^ 63))] = [Fin (- 6148914691236516864)] \<and>
   \<not> nonneg_b64 (Fin (- 6148914691236516864))"
  unfolding oscillator_strengths_b64_nan oscillator_strengths_b64_int64_min
  by (simp add: nonneg_b64_def)

text \<open>
  C8, amended. For binary64 dipole components of any sign and energies that are binary64
  numbers or int64 integers other than \<open>-2 ^ 63\<close>, every element of the output of
  \<open>oscillator_strengths\<close> is NaN or not below zero (plus infinity included).
\<close>

theorem oscillator_strengths_b64_nonneg:
  assumes "Int64 (- (2 ^ 63)) \<notin> set energies"
    and "x \<in> set (oscillator_strengths_b64 tdms energies)"
  shows "x = NaN \<or> nonneg_b64 x"
proof -
  from assms(2) obtain tdm ev where p: "(tdm, ev) \<in> set (zip tdms energies)"
    and x: "x = fmul (b64_of_real (2 / 3))
                  (fmul (fmul (linalg_norm_b64 tdm) (linalg_norm_b64 tdm))
                        (to_float64 (np_abs ev)))"
    by (auto simp: oscillator_strengths_b64_def)
  from p have "ev \<in> set energies" by (rule set_zip_rightD)
  with assms(1) have ev: "ev \<noteq> Int64 (- (2 ^ 63))" by auto
  have "b64_of_real (2 / 3) = NaN \<or> nonneg_b64 (b64_of_real (2 / 3))"
    by (simp add: nonneg_b64_of_real)
  moreover have "fmul (fmul (linalg_norm_b64 tdm) (linalg_norm_b64 tdm))
                   (to_float64 (np_abs ev)) = NaN
       \<or> nonneg_b64 (fmul (fmul (linalg_norm_b64 tdm) (linalg_norm_b64 tdm))
                   (to_float64 (np_abs ev)))"
    by (intro fmul_nonneg fmul_self_nonneg to_float64_np_abs_nonneg ev)
  ultimately show ?thesis unfolding x by (rule fmul_nonneg)
qed

theorem oscillator_strengths_b64_nonneg_witness:
  "Int64 (- (2 ^ 63)) \<notin> set [Float64 (Fin (- 2))] \<and>
   oscillator_strengths_b64 [[Fin 3, Fin (- 4)]] [Float64 (Fin (- 2))]
     = [Fin (4691249611844266 / 2 ^ 47)] \<and>
   nonneg_b64 (Fin (4691249611844266 / 2 ^ 47))"
proof -
  have a: "Int64 (- (2 ^ 63)) \<notin> set [Float64 (Fin (- 2))]" by simp
  have m: "Fin (4691249611844266 / 2 ^ 47)
             \<in> set (oscillator_strengths_b64 [[Fin 3, Fin (- 4)]] [Float64 (Fin (- 2))])"
    by (simp add: oscillator_strengths_b64_signs)
  from oscillator_strengths_b64_nonneg [OF a m] a show ?thesis
    by (simp add: oscillator_strengths_b64_signs)
qed

subsection \<open>Transition dipole moments\<close>

text \<open>
  C3. When the state has \<open>N\<close> transition densities and the reference state provides the
  dipole integrals, \<open>transition_dipole_moments\<close> returns \<open>N\<close> rows in state order, each
  with one entry per dipole component (three for the three Cartesian components), and
  the entry of state \<open>i\<close> and component \<open>k\<close> is \<open>product_trace\<close> of the \<open>k\<close>-th dipole
  integral with the \<open>i\<close>-th transition density. The witness is the scenario of the
  specification, with \<open>product_trace\<close> the sum of the elementwise product.
\<close>

theorem transition_dipole_moments_entries:
  assumes "ground_to_excited_tdms state = Some tdms"
    and "electric_dipole (operator_integrals (reference_state state)) = Some dip"
  shows "\<exists>T. transition_dipole_moments env state = Inr T \<and>
           length T = length tdms \<and>
           (\<forall>i < length tdms. length (T ! i) = length dip \<and>
              (\<forall>k < length dip. T ! i ! k = product_trace env (dip ! k) (tdms ! i)))"
  using assms by (simp add: transition_dipole_moments_def)

theorem transition_dipole_moments_entries_witness:
  "transition_dipole_moments sample_env two_component_state = Inr [[2, 3]]"
proof -
  have a: "ground_to_excited_tdms two_component_state = Some [[[1]]]"
    by (simp add: two_component_state_def)
  have b: "electric_dipole (operator_integrals (reference_state two_component_state))
             = Some [[[2]], [[3]]]"
    by (simp add: two_component_state_def)
  have e: "transition_dipole_moments sample_env two_component_state = Inr [[2, 3]]"
    by (simp add: transition_dipole_moments_def two_component_state_def sample_env_def
          product_trace_spec_def)
  from e transition_dipole_moments_entries [OF a b, of sample_env] show ?thesis by simp
qed

text \<open>
  C7. \<open>transition_dipole_moments\<close> raises its \<open>ValueError\<close> exactly when the state has no
  \<open>ground_to_excited_tdms\<close> or the operator integrals of the reference state have no
  \<open>electric_dipole\<close>; in every other case it returns a result, so it validates nothing
  else, and a missing attribute never yields a silent empty result.
\<close>

theorem transition_dipole_moments_errors:
  "((\<exists>msg. transition_dipole_moments env state = Inl (ValueError msg)) \<longleftrightarrow>
      (ground_to_excited_tdms state = None \<or>
       electric_dipole (operator_integrals (reference_state state)) = None)) \<and>
   ((\<exists>T. transition_dipole_moments env state = Inr T) \<longleftrightarrow>
      \<not> (ground_to_excited_tdms state = None \<or>
         electric_dipole (operator_integrals (reference_state state)) = None))"
  by (auto simp: transition_dipole_moments_def split: option.splits)

theorem transition_dipole_moments_errors_witness:
  "transition_dipole_moments sample_env sample_state =
     Inl (ValueError ''Cannot compute transition dipole moment without transition densities.'') \<and>
   (\<exists>msg. transition_dipole_moments sample_env sample_state = Inl (ValueError msg))"
proof -
  have a: "ground_to_excited_tdms sample_state = None"
    by (simp add: sample_state_def)
  have e: "transition_dipole_moments sample_env sample_state =
     Inl (ValueError ''Cannot compute transition dipole moment without transition densities.'')"
    by (simp add: transition_dipole_moments_def sample_state_def)
  from a e transition_dipole_moments_errors [of sample_env sample_state] show ?thesis
    by simp
qed

subsection \<open>State dipole moments\<close>

text \<open>
  C1, as stated, fails. The presence checks of lines 76-81 come before the method check
  of line 92, so a state without \<open>state_diffdms\<close> gets the \<open>ValueError\<close> of line 77 even
  when the method is \<open>adc0\<close>.
\<close>

theorem state_dipole_moments_adc0_without_densities:
  "state_dipole_moments sample_env sample_state (Some (Method \<lparr>property_method = ''adc0''\<rparr>))
     = Inl (ValueError ''Cannot compute transition dipole moment without state densities.'')"
  by (simp add: state_dipole_moments_def sample_state_def)

text \<open>
  C1, amended. \<open>state_dipole_moments\<close> fails in this order. Without \<open>state_diffdms\<close> it
  raises \<open>ValueError\<close>, whatever the method. With \<open>state_diffdms\<close> but without
  \<open>electric_dipole\<close> in the operator integrals of the reference state it raises
  \<open>ValueError\<close>, whatever the method. With both, when the effective method (the argument,
  or the state's own method, through \<open>AdcMethod\<close> when it is a raw label) has the
  property method \<open>adc0\<close> or \<open>adc1\<close>, it raises \<open>NotImplementedError\<close>, whatever the
  densities, the integrals, the nuclear dipole and the other collaborators are.
\<close>

theorem state_dipole_moments_failures:
  "(state_diffdms state = None \<longrightarrow>
      state_dipole_moments env state method_opt =
        Inl (ValueError ''Cannot compute transition dipole moment without state densities.''))
   \<and>
   (state_diffdms state \<noteq> None \<and>
    electric_dipole (operator_integrals (reference_state state)) = None \<longrightarrow>
      state_dipole_moments env state method_opt =
        Inl (ValueError ''Reference state cannot provide electric dipole integrals.''))
   \<and>
   (state_diffdms state \<noteq> None \<and>
    electric_dipole (operator_integrals (reference_state state)) \<noteq> None \<and>
    effective_method env state method_opt = Inr m \<and>
    (property_method m = ''adc0'' \<or> property_method m = ''adc1'') \<longrightarrow>
      state_dipole_moments env state method_opt =
        Inl (NotImplementedError
          ''ADC(0) and ADC(1) state dipole moments not yet implemented.''))"
  by (auto simp: state_dipole_moments_def split: option.splits)

theorem state_dipole_moments_failures_witness:
  "state_dipole_moments sample_env sample_state (Some (Label ''adc1'')) =
     Inl (ValueError ''Cannot compute transition dipole moment without state densities.'') \<and>
   state_dipole_moments sample_env no_dipole_state
     (Some (Method \<lparr>property_method = ''adc0''\<rparr>)) =
     Inl (ValueError ''Reference state cannot provide electric dipole integrals.'') \<and>
   state_dipole_moments sample_env (sample_state\<lparr>state_diffdms := Some [[[1 / 5]]]\<rparr>)
     (Some (Label ''adc1'')) =
     Inl (NotImplementedError ''ADC(0) and ADC(1) state dipole moments not yet implemented.'')"
proof -
  let ?s = "sample_state\<lparr>state_diffdms := Some [[[1 / 5]]]\<rparr>"
  let ?m = "\<lparr>property_method = ''adc1''\<rparr>"
  have a: "state_diffdms sample_state = None"
    by (simp add: sample_state_def)
  have b: "state_diffdms no_dipole_state \<noteq> None \<and>
           electric_dipole (operator_integrals (reference_state no_dipole_state)) = None"
    by (simp add: no_dipole_state_def)
  have c: "state_diffdms ?s \<noteq> None \<and>
           electric_dipole (operator_integrals (reference_state ?s)) \<noteq> None \<and>
           effective_method sample_env ?s (Some (Label ''adc1'')) = Inr ?m \<and>
           (property_method ?m = ''adc0'' \<or> property_method ?m = ''adc1'')"
    by (simp add: sample_state_def effective_method_def sample_env_def)
  from a state_dipole_moments_failures [of sample_state sample_env "Some (Label ''adc1'')"]
  have 1: "state_dipole_moments sample_env sample_state (Some (Label ''adc1'')) =
     Inl (ValueError ''Cannot compute transition dipole moment without state densities.'')"
    by blast
  from b state_dipole_moments_failures
    [of no_dipole_state sample_env "Some (Method \<lparr>property_method = ''adc0''\<rparr>)"]
  have 2: "state_dipole_moments sample_env no_dipole_state
     (Some (Method \<lparr>property_method = ''adc0''\<rparr>)) =
     Inl (ValueError ''Reference state cannot provide electric dipole integrals.'')"
    by blast
  from c state_dipole_moments_failures [of ?s sample_env "Some (Label ''adc1'')" ?m]
  have 3: "state_dipole_moments sample_env ?s (Some (Label ''adc1'')) =
     Inl (NotImplementedError ''ADC(0) and ADC(1) state dipole moments not yet implemented.'')"
    by blast
  from 1 2 3 show ?thesis by blast
qed

text \<open>
  For at least one state and as many nuclear dipole components as dipole integrals, and a
  method past the check of line 92, the value returned by \<open>state_dipole_moments\<close>: to
  every state's contraction vector the ground-state dipole moment is added, whose
  \<open>k\<close>-th component is the trace with the Hartree-Fock density plus the trace with the
  MP2 correction density minus the \<open>k\<close>-th nuclear dipole component.
\<close>

lemma state_dipole_moments_value:
  assumes "state_diffdms state = Some ddms" and "ddms \<noteq> []"
    and "electric_dipole (operator_integrals (reference_state state)) = Some dip"
    and "length (nuclear_dipole (reference_state state)) = length dip"
    and "effective_method env state method_opt = Inr m"
    and "property_method m \<noteq> ''adc0''" and "property_method m \<noteq> ''adc1''"
  shows "state_dipole_moments env state method_opt =
           Inr (map (\<lambda>ddm. map2 (+)
                   (map2 (-)
                      (map (\<lambda>comp. product_trace env comp
                                       (HfDensityMatrix env (reference_state state))
                                   + product_trace env comp (mp2_diffdm (ground_state state)))
                         dip)
                      (nuclear_dipole (reference_state state)))
                   (map (\<lambda>comp. product_trace env comp ddm) dip)) ddms)"
proof -
  let ?gs = "map2 (-)
               (map (\<lambda>comp. product_trace env comp (HfDensityMatrix env (reference_state state))
                             + product_trace env comp (mp2_diffdm (ground_state state))) dip)
               (nuclear_dipole (reference_state state))"
  let ?rows = "map (\<lambda>ddm. map (\<lambda>comp. product_trace env comp ddm) dip) ddms"
  have gs: "gs_dip_moment env state dip = Inr ?gs"
    using assms(4) by (simp add: gs_dip_moment_def np_broadcast_same_length)
  have "?rows \<noteq> []" using assms(2) by simp
  moreover have "\<forall>row \<in> set ?rows. length row = length ?gs"
    using assms(4) by auto
  ultimately have "np_add_rows ?gs ?rows = Inr (map (\<lambda>row. map2 (+) ?gs row) ?rows)"
    by (rule np_add_rows_same_length)
  then show ?thesis
    using assms(1,3,5,6,7) gs by (simp add: state_dipole_moments_def comp_def)
qed

lemma state_dipole_moments_formula:
  assumes "state_diffdms state = Some ddms" and "ddms \<noteq> []"
    and "electric_dipole (operator_integrals (reference_state state)) = Some dip"
    and "length (nuclear_dipole (reference_state state)) = length dip"
    and "effective_method env state method_opt = Inr m"
    and "property_method m \<noteq> ''adc0''" and "property_method m \<noteq> ''adc1''"
  shows "\<exists>D. state_dipole_moments env state method_opt = Inr D \<and>
           length D = length ddms \<and>
           (\<forall>i < length ddms. length (D ! i) = length dip \<and>
              (\<forall>k < length dip. D ! i ! k =
                 (product_trace env (dip ! k) (HfDensityMatrix env (reference_state state))
                  + product_trace env (dip ! k) (mp2_diffdm (ground_state state))
                  - nuclear_dipole (reference_state state) ! k)
                 + product_trace env (dip ! k) (ddms ! i)))"
  using assms(4) by (simp add: state_dipole_moments_value [OF assms])

text \<open>
  The scenario of the specification: the electronic traces sum to \<open>[1, 0, 0]\<close>, the
  nuclear dipole is \<open>[3/10, 0, 0]\<close> and the contraction of the one state is
  \<open>[1/5, 0, 0]\<close>; the state dipole moment is \<open>[9/10, 0, 0]\<close>.
\<close>

lemma state_dipole_moments_scenario:
  "state_dipole_moments sample_env (sample_state\<lparr>state_diffdms := Some [[[1 / 5]]]\<rparr>) None
     = Inr [[9 / 10, 0, 0]]"
  by (simp add: state_dipole_moments_def gs_dip_moment_def np_broadcast_def np_add_rows_def
        effective_method_def sample_env_def sample_state_def product_trace_spec_def)

text \<open>
  C4 claims the value above for every number \<open>N\<close> of state difference densities. With
  \<open>N = 0\<close> and three dipole components the code does not return the empty result the
  claim promises: \<open>np.array([])\<close> is one-dimensional of length 0, the ground-state dipole
  moment has length 3, and the addition of line 107 raises numpy's broadcasting
  \<open>ValueError\<close>.
\<close>

theorem state_dipole_moments_no_states:
  "state_dipole_moments sample_env (sample_state\<lparr>state_diffdms := Some []\<rparr>) None
     = Inl (ValueError ''operands could not be broadcast together'')"
  by (simp add: state_dipole_moments_def gs_dip_moment_def np_broadcast_def np_add_rows_def
        effective_method_def sample_env_def sample_state_def product_trace_spec_def)

subsection \<open>The orchestrators and the object store\<close>

text \<open>What the contract of the provider gives for one call.\<close>

lemma provider_frameD:
  assumes "provider_frame p" and "r < length h" and "p h r flags m = (h', res)"
  shows "length h \<le> length h'"
    and "c < length h \<Longrightarrow> c \<noteq> r \<Longrightarrow> h' ! c = h ! c"
    and "res = Inr r' \<Longrightarrow> r' < length h' \<and> (r' = r \<or> length h \<le> r')"
proof -
  note assms(1) [unfolded provider_frame_def, rule_format, OF assms(2), of flags m]
  then have *: "length h \<le> length h' \<and>
         (\<forall>c < length h. c \<noteq> r \<longrightarrow> h' ! c = h ! c) \<and>
         (case res of
            Inl e \<Rightarrow> True
          | Inr r' \<Rightarrow> r' < length h' \<and> (r' = r \<or> length h \<le> r'))"
    by (simp add: assms(3))
  from * show "length h \<le> length h'" by simp
  from * show "c < length h \<Longrightarrow> c \<noteq> r \<Longrightarrow> h' ! c = h ! c" by simp
  from * show "res = Inr r' \<Longrightarrow> r' < length h' \<and> (r' = r \<or> length h \<le> r')" by simp
qed

lemma call_provider_old:
  assumes "provider_frame (attach_state_densities env)"
    and "n \<le> r" and "r < length (heap w)"
    and "call_provider env w r flags m = (w', res)"
  shows "length (heap w) \<le> length (heap w')"
    and "\<forall>c < n. heap w' ! c = heap w ! c"
    and "\<forall>r'. res = Inr r' \<longrightarrow> n \<le> r' \<and> r' < length (heap w')"
proof -
  obtain h' where p: "attach_state_densities env (heap w) r flags m = (h', res)"
    and w': "heap w' = h'"
    using assms(4) by (cases "attach_state_densities env (heap w) r flags m")
      (auto simp: call_provider_def)
  note D = provider_frameD [OF assms(1,3) p]
  show "length (heap w) \<le> length (heap w')" using D(1) w' by simp
  show "\<forall>c < n. heap w' ! c = heap w ! c"
    using D(2) assms(2,3) w' by simp
  show "\<forall>r'. res = Inr r' \<longrightarrow> n \<le> r' \<and> r' < length (heap w')"
  proof (intro allI impI)
    fix r' assume "res = Inr r'"
    from D(3) [OF this] assms(2,3) w' show "n \<le> r' \<and> r' < length (heap w')" by auto
  qed
qed

text \<open>
  An orchestrator that works on an object at or above \<open>n\<close> leaves the objects below \<open>n\<close>
  as they are, and the reference it returns is again at or above \<open>n\<close>.
\<close>

lemma attach_state_properties_old:
  assumes "provider_frame (attach_state_densities env)"
    and "n \<le> r" and "r < length (heap w)"
    and "attach_state_properties env w r m = (w', res)"
  shows "length (heap w) \<le> length (heap w') \<and>
         (\<forall>c < n. heap w' ! c = heap w ! c) \<and>
         (\<forall>r'. res = Inr r' \<longrightarrow> n \<le> r' \<and> r' < length (heap w'))"
proof (cases "state_diffdms (heap w ! r) = None")
  case True
  let ?flags = "\<lparr>state_diffdm = True, ground_to_excited_tdm = False,
                  state_to_state_tdm = False\<rparr>"
  obtain w1 res1 where cp: "call_provider env w r ?flags m = (w1, res1)"
    by (cases "call_provider env w r ?flags m")
  note old = call_provider_old [OF assms(1,2,3) cp]
  show ?thesis
  proof (cases res1)
    case (Inl e)
    with assms(4) True cp have "w' = w1" "res = Inl e"
      by (simp_all add: attach_state_properties_def)
    with old show ?thesis by simp
  next
    case (Inr r1)
    with old(3) have r1: "n \<le> r1" "r1 < length (heap w1)" by simp_all
    show ?thesis
    proof (cases "state_dipole_moments env (heap w1 ! r1) m")
      case (Inl e)
      with assms(4) True cp Inr have "w' = w1" "res = Inl e"
        by (simp_all add: attach_state_properties_def)
      with old show ?thesis by simp
    next
      case (Inr d)
      with assms(4) True cp \<open>res1 = Inr r1\<close>
      have "heap w' = (heap w1)[r1 := (heap w1 ! r1)\<lparr>state_dipole_moments_attr := Some d\<rparr>]"
        and "res = Inr r1"
        by (auto simp: attach_state_properties_def)
      with old r1 show ?thesis by simp
    qed
  qed
next
  case False
  show ?thesis
  proof (cases "state_dipole_moments env (heap w ! r) m")
    case (Inl e)
    with assms(4) False have "w' = w" "res = Inl e"
      by (simp_all add: attach_state_properties_def)
    then show ?thesis by simp
  next
    case (Inr d)
    with assms(4) False
    have "heap w' = (heap w)[r := (heap w ! r)\<lparr>state_dipole_moments_attr := Some d\<rparr>]"
      and "res = Inr r"
      by (auto simp: attach_state_properties_def)
    with assms(2,3) show ?thesis by simp
  qed
qed

lemma attach_transition_properties_old:
  assumes "provider_frame (attach_state_densities env)"
    and "n \<le> r" and "r < length (heap w)"
    and "attach_transition_properties env w r m = (w', res)"
  shows "length (heap w) \<le> length (heap w') \<and>
         (\<forall>c < n. heap w' ! c = heap w ! c) \<and>
         (\<forall>r'. res = Inr r' \<longrightarrow> n \<le> r' \<and> r' < length (heap w'))"
proof (cases "ground_to_excited_tdms (heap w ! r) = None")
  case True
  let ?flags = "\<lparr>state_diffdm = False, ground_to_excited_tdm = True,
                  state_to_state_tdm = False\<rparr>"
  obtain w1 res1 where cp: "call_provider env w r ?flags m = (w1, res1)"
    by (cases "call_provider env w r ?flags m")
  note old = call_provider_old [OF assms(1,2,3) cp]
  show ?thesis
  proof (cases res1)
    case (Inl e)
    with assms(4) True cp have "w' = w1" "res = Inl e"
      by (simp_all add: attach_transition_properties_def)
    with old show ?thesis by simp
  next
    case (Inr r1)
    with old(3) have r1: "n \<le> r1" "r1 < length (heap w1)" by simp_all
    show ?thesis
    proof (cases "transition_dipole_moments env (heap w1 ! r1)")
      case (Inl e)
      with assms(4) True cp Inr have "w' = w1" "res = Inl e"
        by (simp_all add: attach_transition_properties_def)
      with old show ?thesis by simp
    next
      case (Inr t)
      with assms(4) True cp \<open>res1 = Inr r1\<close>
      have "\<exists>s. heap w' = (heap w1)[r1 := s]" and "res = Inr r1"
        by (auto simp: attach_transition_properties_def Let_def)
      with old r1 show ?thesis by auto
    qed
  qed
next
  case False
  show ?thesis
  proof (cases "transition_dipole_moments env (heap w ! r)")
    case (Inl e)
    with assms(4) False have "w' = w" "res = Inl e"
      by (simp_all add: attach_transition_properties_def)
    then show ?thesis by simp
  next
    case (Inr t)
    with assms(4) False
    have "\<exists>s. heap w' = (heap w)[r := s]" and "res = Inr r"
      by (auto simp: attach_transition_properties_def Let_def)
    with assms(2,3) show ?thesis by auto
  qed
qed

lemma attach_properties_old:
  assumes "provider_frame (attach_state_densities env)"
    and "attach_properties env w r tp sp m = (w', res)"
  shows "\<forall>c < length (heap w). heap w' ! c = heap w ! c"
proof -
  let ?n = "length (heap w)"
  let ?w0 = "w\<lparr>heap := heap w @ [heap w ! r]\<rparr>"
  let ?first = "if sp then attach_state_properties env ?w0 ?n m else (?w0, Inr ?n)"
  obtain w1 res1 where s1: "?first = (w1, res1)"
    by (cases ?first)
  have w0: "\<forall>c < ?n. heap ?w0 ! c = heap w ! c" by (simp add: nth_append)
  have st: "length (heap ?w0) \<le> length (heap w1) \<and>
         (\<forall>c < ?n. heap w1 ! c = heap ?w0 ! c) \<and>
         (\<forall>r'. res1 = Inr r' \<longrightarrow> ?n \<le> r' \<and> r' < length (heap w1))"
  proof (cases sp)
    case True
    with s1 have a: "attach_state_properties env ?w0 ?n m = (w1, res1)" by simp
    have b: "?n \<le> ?n" by simp
    have c: "?n < length (heap ?w0)" by simp
    from attach_state_properties_old [OF assms(1) b c a] show ?thesis .
  next
    case False
    with s1 have "w1 = ?w0" "res1 = Inr ?n" by simp_all
    then show ?thesis by simp
  qed
  have unfold: "attach_properties env w r tp sp m =
      (case ?first of
         (w1, Inl e) \<Rightarrow> (w1, Inl e)
       | (w1, Inr r1) \<Rightarrow>
           (if tp then attach_transition_properties env w1 r1 m else (w1, Inr r1)))"
    by (simp add: attach_properties_def copy_def)
  show ?thesis
  proof (cases res1)
    case (Inl e)
    with assms(2) s1 have "w' = w1" unfolding unfold by simp
    with st w0 show ?thesis by simp
  next
    case (Inr r1)
    with st have r1: "?n \<le> r1" "r1 < length (heap w1)" by simp_all
    show ?thesis
    proof (cases tp)
      case True
      with assms(2) s1 Inr have "attach_transition_properties env w1 r1 m = (w', res)"
        unfolding unfold by simp
      from attach_transition_properties_old [OF assms(1) r1 this] st w0
      show ?thesis by simp
    next
      case False
      with assms(2) s1 Inr have "w' = w1" unfolding unfold by simp
      with st w0 show ?thesis by simp
    qed
  qed
qed

lemma sample_provider_frame: "provider_frame sample_provider"
  unfolding provider_frame_def sample_provider_def
  by (simp add: Let_def)

text \<open>
  The whole pipeline on the sample state: two calls of the provider, all three derived
  attributes on the copy, the original left as it was.
\<close>

lemma attach_properties_sample:
  "attach_properties sample_env sample_world 0 True True None =
     (\<lparr>heap = [sample_state,
               sample_state
                 \<lparr>state_diffdms := Some [[[1 / 5]]],
                  ground_to_excited_tdms := Some [[[1 / 5]]],
                  transition_dipole_moments_attr := Some [[1 / 5, 0, 0]],
                  oscillator_strengths_attr := Some [1 / 75],
                  state_dipole_moments_attr := Some [[9 / 10, 0, 0]]\<rparr>],
       provider_calls = 2\<rparr>, Inr 1)"
  by (simp add: attach_properties_def copy_def attach_state_properties_def
        attach_transition_properties_def call_provider_def sample_world_def sample_env_def
        sample_provider_def sample_state_def state_dipole_moments_def
        transition_dipole_moments_def oscillator_strengths_def effective_method_def
        gs_dip_moment_def np_broadcast_def np_add_rows_def product_trace_spec_def
        linalg_norm_sq power_divide Let_def)

text \<open>
  C5. Under the provider's contract, for every solver state and every combination of
  the two flags, the object the caller passed to \<open>attach_properties\<close> is the same after
  the call as before, whether the call returns or raises: every attribute is set on
  the copy made at line 147 or on an object the provider returned.
\<close>

theorem attach_properties_preserves_original:
  assumes "provider_frame (attach_state_densities env)"
    and "r < length (heap w)"
  shows "heap (fst (attach_properties env w r transition_properties state_properties m)) ! r
           = heap w ! r"
proof -
  obtain w' res where
    a: "attach_properties env w r transition_properties state_properties m = (w', res)"
    by (cases "attach_properties env w r transition_properties state_properties m")
  from attach_properties_old [OF assms(1) a] assms(2) a show ?thesis by simp
qed

theorem attach_properties_preserves_original_witness:
  "provider_frame (attach_state_densities sample_env) \<and>
   (0 :: nat) < length (heap sample_world) \<and>
   heap (fst (attach_properties sample_env sample_world 0 True True None)) ! 0 = sample_state \<and>
   snd (attach_properties sample_env sample_world 0 True True None) = Inr 1"
proof -
  have f: "provider_frame (attach_state_densities sample_env)"
    by (simp add: sample_env_def sample_provider_frame)
  have l: "(0 :: nat) < length (heap sample_world)"
    by (simp add: sample_world_def)
  have h: "heap sample_world ! 0 = sample_state"
    by (simp add: sample_world_def)
  from f l h attach_properties_preserves_original [OF f l, of True True None]
  show ?thesis by (simp add: attach_properties_sample)
qed

text \<open>
  C6. With both flags false \<open>attach_properties\<close> returns a reference to a new object,
  different from the one passed in, whose attributes are exactly those of the input; no
  other object changes and the provider is not called.
\<close>

theorem attach_properties_no_flags:
  assumes "r < length (heap w)"
  shows "attach_properties env w r False False m
           = (w\<lparr>heap := heap w @ [heap w ! r]\<rparr>, Inr (length (heap w))) \<and>
         length (heap w) \<noteq> r \<and>
         (heap w @ [heap w ! r]) ! length (heap w) = heap w ! r \<and>
         (heap w @ [heap w ! r]) ! r = heap w ! r"
  using assms by (simp add: attach_properties_def copy_def nth_append)

theorem attach_properties_no_flags_witness:
  "attach_properties sample_env sample_world 0 False False None
     = (\<lparr>heap = [sample_state, sample_state], provider_calls = 0\<rparr>, Inr 1)"
proof -
  have l: "(0 :: nat) < length (heap sample_world)"
    by (simp add: sample_world_def)
  from attach_properties_no_flags [OF l, of sample_env None] show ?thesis
    by (simp add: sample_world_def)
qed

lemma transition_dipole_moments_provider:
  "transition_dipole_moments (env\<lparr>attach_state_densities := p\<rparr>) state
     = transition_dipole_moments env state"
  by (simp add: transition_dipole_moments_def split: option.splits)

text \<open>
  C9. When the state already has \<open>ground_to_excited_tdms\<close>,
  \<open>attach_transition_properties\<close> does not call the density provider: the count of
  provider calls is unchanged and the outcome is the same whatever provider is supplied.
\<close>

theorem attach_transition_properties_no_provider_call:
  assumes "ground_to_excited_tdms (heap w ! r) \<noteq> None"
  shows "attach_transition_properties (env\<lparr>attach_state_densities := p\<rparr>) w r m
           = attach_transition_properties env w r m \<and>
         provider_calls (fst (attach_transition_properties env w r m)) = provider_calls w"
proof -
  have body: "\<And>e. attach_transition_properties e w r m =
      (case transition_dipole_moments e (heap w ! r) of
         Inl err \<Rightarrow> (w, Inl err)
       | Inr t \<Rightarrow>
           (w\<lparr>heap := (heap w)[r := (heap w ! r)
               \<lparr>transition_dipole_moments_attr := Some t,
                oscillator_strengths_attr :=
                  Some (oscillator_strengths t (eigenvalues (heap w ! r)))\<rparr>]\<rparr>, Inr r))"
  proof -
    fix e
    from assms obtain tdms where "ground_to_excited_tdms (heap w ! r) = Some tdms"
      by auto
    then show "attach_transition_properties e w r m =
      (case transition_dipole_moments e (heap w ! r) of
         Inl err \<Rightarrow> (w, Inl err)
       | Inr t \<Rightarrow>
           (w\<lparr>heap := (heap w)[r := (heap w ! r)
               \<lparr>transition_dipole_moments_attr := Some t,
                oscillator_strengths_attr :=
                  Some (oscillator_strengths t (eigenvalues (heap w ! r)))\<rparr>]\<rparr>, Inr r))"
      by (simp add: attach_transition_properties_def Let_def split: sum.splits)
  qed
  show ?thesis
    unfolding body transition_dipole_moments_provider
    by (simp split: sum.splits)
qed

theorem attach_transition_properties_no_provider_call_witness:
  "attach_transition_properties
     (sample_env\<lparr>attach_state_densities := (\<lambda>h r flags m. (h, Inl (OtherError ''no provider'')))\<rparr>)
     \<lparr>heap = [two_component_state], provider_calls = 0\<rparr> 0 None
   = attach_transition_properties sample_env
       \<lparr>heap = [two_component_state], provider_calls = 0\<rparr> 0 None \<and>
   provider_calls (fst (attach_transition_properties sample_env
       \<lparr>heap = [two_component_state], provider_calls = 0\<rparr> 0 None)) = 0"
proof -
  have a: "ground_to_excited_tdms
             (heap \<lparr>heap = [two_component_state], provider_calls = 0\<rparr> ! 0) \<noteq> None"
    by (simp add: two_component_state_def)
  from attach_transition_properties_no_provider_call [OF a] show ?thesis by simp
qed

lemma attach_transition_properties_sample:
  "attach_transition_properties sample_env
       \<lparr>heap = [two_component_state], provider_calls = 0\<rparr> 0 None
   = (\<lparr>heap = [two_component_state
                  \<lparr>transition_dipole_moments_attr := Some [[2, 3]],
                   oscillator_strengths_attr := Some [13 / 3]\<rparr>],
       provider_calls = 0\<rparr>, Inr 0)"
  by (simp add: attach_transition_properties_def two_component_state_def sample_env_def
        sample_state_def
        transition_dipole_moments_def oscillator_strengths_def product_trace_spec_def
        linalg_norm_sq Let_def)

end
